theory Spec2Isabelle
  imports Complex_Main
begin

section \<open>Python strings and sequences\<close>

text \<open>
  A Python \<open>str\<close> is a sequence of Unicode code points, and \<open>len\<close> counts code
  points; the texts of this program are Russian. A string is therefore a list of code
  points, and \<open>u\<close> reads an ASCII literal as such a list.
\<close>

type_synonym ustring = "nat list"

definition u :: "string \<Rightarrow> ustring" where
  "u s = map of_char s"

text \<open>
  The characters for which \<open>str.isspace\<close> holds; the class \<open>\s\<close> of \<open>re\<close> on a
  \<open>str\<close> pattern and \<open>str.strip\<close> use the same table.
\<close>

definition is_space :: "nat \<Rightarrow> bool" where
  "is_space c \<longleftrightarrow>
     (9 \<le> c \<and> c \<le> 13) \<or> (28 \<le> c \<and> c \<le> 32) \<or> c = 133 \<or> c = 160 \<or> c = 5760 \<or>
     (8192 \<le> c \<and> c \<le> 8202) \<or> c = 8232 \<or> c = 8233 \<or> c = 8239 \<or> c = 8287 \<or> c = 12288"

definition strip :: "ustring \<Rightarrow> ustring" where
  "strip s = rev (dropWhile is_space (rev (dropWhile is_space s)))"

text \<open>
  Slice bounds as Python adjusts them: a negative bound counts from the end, and every
  bound is clipped to \<open>0..len\<close>.
\<close>

definition py_index :: "int \<Rightarrow> int \<Rightarrow> nat" where
  "py_index n i = nat (if i < 0 then max (i + n) 0 else min i n)"

definition py_slice :: "'a list \<Rightarrow> int \<Rightarrow> int \<Rightarrow> 'a list" where
  "py_slice xs a b =
     (let n = int (length xs); lo = py_index n a; hi = py_index n b
      in take (hi - lo) (drop lo xs))"

text \<open>
  \<open>text.rfind(c, a, b)\<close> for a single character \<open>c\<close>: the highest index at which
  \<open>c\<close> stands inside the slice, or -1.
\<close>

primrec last_index :: "'a list \<Rightarrow> 'a \<Rightarrow> nat option" where
  "last_index [] c = None"
| "last_index (x # xs) c =
     (case last_index xs c of
        Some i \<Rightarrow> Some (Suc i)
      | None \<Rightarrow> if x = c then Some 0 else None)"

definition rfind :: "ustring \<Rightarrow> nat \<Rightarrow> int \<Rightarrow> int \<Rightarrow> int" where
  "rfind text c a b =
     (case last_index (py_slice text a b) c of
        None \<Rightarrow> - 1
      | Some i \<Rightarrow> int (py_index (int (length text)) a + i))"

section \<open>The chunker (text_processor.py)\<close>

text \<open>
  One pass of the body of the scanning loop of \<open>split_text_into_chunks\<close>: the end of
  the window after the search for a break point, and the start of the next window.
\<close>

definition chunk_end :: "ustring \<Rightarrow> int \<Rightarrow> int \<Rightarrow> int" where
  "chunk_end text chunk_size start =
     (let n = int (length text);
          e = min (start + chunk_size) n
      in if e < n then
           (let last_space = rfind text 32 start e;
                last_newline = rfind text 10 start e;
                last_period = rfind text 46 start e;
                best_break = max (max last_space last_newline) last_period
            in if best_break > start then best_break + 1 else e)
         else e)"

definition next_start :: "ustring \<Rightarrow> int \<Rightarrow> int \<Rightarrow> int \<Rightarrow> int" where
  "next_start text chunk_size overlap start =
     max (start + chunk_size - overlap) (chunk_end text chunk_size start - overlap)"

definition emit :: "ustring list \<Rightarrow> ustring \<Rightarrow> ustring list" where
  "emit chunks chunk = (if chunk \<noteq> [] then chunks @ [chunk] else chunks)"

text \<open>
  The \<open>while start < len(text)\<close> loop. It may run forever, so it is a partial function:
  \<open>None\<close> is the loop that never returns.
\<close>

partial_function (option) chunk_loop ::
  "ustring \<Rightarrow> int \<Rightarrow> int \<Rightarrow> int \<Rightarrow> ustring list \<Rightarrow> ustring list option" where
  "chunk_loop text chunk_size overlap start chunks =
     (if start < int (length text) then
        (let e = chunk_end text chunk_size start;
             chunks' = emit chunks (strip (py_slice text start e))
         in if e \<ge> int (length text) then Some chunks'
            else chunk_loop text chunk_size overlap
                   (next_start text chunk_size overlap start) chunks')
      else Some chunks)"

definition split_text_into_chunks :: "ustring \<Rightarrow> int \<Rightarrow> int \<Rightarrow> ustring list option" where
  "split_text_into_chunks text chunk_size overlap =
     (if int (length text) \<le> chunk_size then Some [text]
      else chunk_loop text chunk_size overlap 0 [])"

section \<open>The text normalizer (text_processor.py)\<close>

text \<open>
  \<open>clean_ocr_text\<close> is a chain of \<open>re.sub\<close> calls. Each pattern is modelled by the
  scan \<open>re.sub\<close> performs for it: left to right, leftmost match, greedy repetition,
  and the search resumes behind a match.

  \<open>sub_runs p\<close> is \<open>re.sub\<close> of a pattern \<open>C+\<close> by one space, for a character class
  \<open>C\<close> given as the predicate \<open>p\<close>: every maximal run becomes one space (32).
\<close>

function sub_runs :: "(nat \<Rightarrow> bool) \<Rightarrow> ustring \<Rightarrow> ustring" where
  "sub_runs p [] = []"
| "sub_runs p (c # cs) =
     (if p c then 32 # sub_runs p (dropWhile p cs) else c # sub_runs p cs)"
  by pat_completeness auto
termination
  by (relation "measure (\<lambda>(p, s). length s)") (auto simp: le_imp_less_Suc length_dropWhile_le)

text \<open>The pattern \<open>[_\-]{3,}\<close>: a run of three or more underscores (95) and hyphens (45).\<close>

definition is_rule :: "nat \<Rightarrow> bool" where
  "is_rule c \<longleftrightarrow> c = 95 \<or> c = 45"

function sub_rules :: "ustring \<Rightarrow> ustring" where
  "sub_rules [] = []"
| "sub_rules (c # cs) =
     (if 3 \<le> length (takeWhile is_rule (c # cs))
      then 32 # sub_rules (dropWhile is_rule cs)
      else c # sub_rules cs)"
  by pat_completeness auto
termination
  by (relation "measure length") (auto simp: le_imp_less_Suc length_dropWhile_le)

text \<open>
  The negated class of the third substitution keeps word characters, white space, the
  Cyrillic range U+0410..U+044F and the punctuation \<open>. , ; : ! ? ( ) [ ]\<close>, the numero
  sign (8470) and \<open>% - /\<close>. The table of \<open>\w\<close> belongs to the Python runtime, not to
  this repository, and is the parameter \<open>is_word\<close>.
\<close>

definition is_kept :: "(nat \<Rightarrow> bool) \<Rightarrow> nat \<Rightarrow> bool" where
  "is_kept is_word c \<longleftrightarrow>
     is_word c \<or> is_space c \<or> (1040 \<le> c \<and> c \<le> 1103) \<or>
     c \<in> set [46, 44, 59, 58, 33, 63, 40, 41, 91, 93, 8470, 37, 45, 47]"

text \<open>
  The pattern \<open>^\s*[\.\-\|]+\s*\<close> under \<open>re.MULTILINE\<close>, replaced by the empty string.
  The flag \<open>bol\<close> says that the current position is the start of the text or follows a
  newline (10). The two classes are disjoint, so the greedy match is the maximal run of
  white space, then the maximal non-empty run of \<open>. - |\<close>, then the maximal run of white
  space; behind a match the position is a line start when the last character matched
  is a newline.
\<close>

definition is_lead :: "nat \<Rightarrow> bool" where
  "is_lead c \<longleftrightarrow> c = 46 \<or> c = 45 \<or> c = 124"

function strip_leads :: "bool \<Rightarrow> ustring \<Rightarrow> ustring" where
  "strip_leads bol [] = []"
| "strip_leads bol (c # cs) =
     (let r1 = dropWhile is_space (c # cs);
          r2 = dropWhile is_lead r1;
          ws = takeWhile is_space r2;
          r3 = dropWhile is_space r2
      in if bol \<and> r2 \<noteq> r1
         then strip_leads (ws \<noteq> [] \<and> last ws = 10) r3
         else c # strip_leads (c = 10) cs)"
  by pat_completeness auto
termination
proof (relation "measure (\<lambda>(bol, s). length s)")
  show "wf (measure (\<lambda>(bol :: bool, s :: ustring). length s))"
    by simp
next
  fix bol :: bool and c :: nat and cs r1 r2 ws r3 :: ustring
  assume r1: "r1 = dropWhile is_space (c # cs)"
    and r2: "r2 = dropWhile is_lead r1"
    and r3: "r3 = dropWhile is_space r2"
    and m: "bol \<and> r2 \<noteq> r1"
  have "length r2 < length r1"
    using r2 m by (cases r1) (auto simp: le_imp_less_Suc length_dropWhile_le split: if_splits)
  moreover have "length r3 \<le> length r2"
    by (simp add: r3 length_dropWhile_le)
  moreover have "length r1 \<le> length (c # cs)"
    unfolding r1 by (rule length_dropWhile_le)
  ultimately show "((ws \<noteq> [] \<and> last ws = 10, r3), (bol, c # cs))
      \<in> measure (\<lambda>(bol, s). length s)"
    by simp
next
  fix bol :: bool and c :: nat and cs :: ustring
  show "((c = 10, cs), (bol, c # cs)) \<in> measure (\<lambda>(bol, s). length s)"
    by simp
qed

text \<open>
  The pattern \<open>\n\s*\n\<close>, replaced by one newline: from a newline, the greedy \<open>\s*\<close>
  backtracks to the last newline of the white-space run that follows.
\<close>

function collapse_blank :: "ustring \<Rightarrow> ustring" where
  "collapse_blank [] = []"
| "collapse_blank (c # cs) =
     (if c = 10 then
        (case last_index (takeWhile is_space cs) 10 of
           Some i \<Rightarrow> 10 # collapse_blank (drop (Suc i) cs)
         | None \<Rightarrow> c # collapse_blank cs)
      else c # collapse_blank cs)"
  by pat_completeness auto
termination
  by (relation "measure length") auto

text \<open>
  \<open>s.split(sep)\<close> for a single character, and \<open>sep.join(parts)\<close>. A split has at
  least one part, so the first branch of the \<open>case\<close> below is never taken.
\<close>

primrec split_on :: "'a \<Rightarrow> 'a list \<Rightarrow> 'a list list" where
  "split_on sep [] = [[]]"
| "split_on sep (c # cs) =
     (if c = sep then [] # split_on sep cs
      else (case split_on sep cs of [] \<Rightarrow> [[c]] | l # ls \<Rightarrow> (c # l) # ls))"

fun join :: "'a list \<Rightarrow> 'a list list \<Rightarrow> 'a list" where
  "join sep [] = []"
| "join sep [x] = x"
| "join sep (x # y # ys) = x @ sep @ join sep (y # ys)"

definition clean_ocr_text :: "(nat \<Rightarrow> bool) \<Rightarrow> ustring \<Rightarrow> ustring" where
  "clean_ocr_text is_word text =
     (let t1 = sub_runs (\<lambda>c. c = 124) text;
          t2 = sub_rules t1;
          t3 = map (\<lambda>c. if is_kept is_word c then c else 32) t2;
          t4 = sub_runs is_space t3;
          t5 = strip_leads True t4;
          t6 = collapse_blank t5;
          lines = split_on 10 t6;
          clean_lines = filter (\<lambda>line. 2 < length line) (map strip lines)
      in join [10] clean_lines)"

text \<open>
  An instance of the parameter \<open>is_word\<close> for evaluation: the word characters of ASCII
  (digits, letters and the underscore).
\<close>

definition ascii_word :: "nat \<Rightarrow> bool" where
  "ascii_word c \<longleftrightarrow>
     (48 \<le> c \<and> c \<le> 57) \<or> (65 \<le> c \<and> c \<le> 90) \<or> (97 \<le> c \<and> c \<le> 122) \<or> c = 95"

section \<open>The search engine (search_engine.py)\<close>

text \<open>
  Exceptions are values; \<open>str_error\<close> is \<open>str(e)\<close>. Floating-point similarities are
  modelled as real numbers.
\<close>

datatype error =
    ValueError ustring
  | IndexError ustring
  | TypeError ustring
  | Exception ustring

fun str_error :: "error \<Rightarrow> ustring" where
  "str_error (ValueError m) = m"
| "str_error (IndexError m) = m"
| "str_error (TypeError m) = m"
| "str_error (Exception m) = m"

text \<open>The messages \<open>ValueError\<close> is raised with (code points of the Russian text).\<close>

definition index_not_loaded :: ustring where
  "index_not_loaded =
     [1048, 1085, 1076, 1077, 1082, 1089, 32, 1085, 1077, 32, 1079, 1072, 1075, 1088, 1091,
      1078, 1077, 1085]"

definition model_not_loaded :: ustring where
  "model_not_loaded =
     [1052, 1086, 1076, 1077, 1083, 1100, 32, 1085, 1077, 32, 1079, 1072, 1075, 1088, 1091,
      1078, 1077, 1085, 1072]"

text \<open>
  A chunk of the index is a dictionary with the keys \<open>chunk_id\<close>, \<open>file_id\<close>,
  \<open>filename\<close>, \<open>text\<close> and \<open>chunk_index\<close>; \<open>get_chunk_context\<close> adds the key
  \<open>is_target\<close>. A search result is a copy of a chunk with the keys \<open>similarity\<close> and
  \<open>rank\<close> added.
\<close>

record chunk =
  chunk_id :: ustring
  file_id :: ustring
  filename :: ustring
  text' :: ustring
  chunk_index :: int
  is_target :: "bool option"

record search_result = chunk +
  similarity :: real
  rank :: int

record index_snapshot =
  chunks :: "chunk list"
  embeddings :: "real list list"
  model_name :: ustring
  total_chunks :: int
  embedding_dim :: int

text \<open>
  The engine holds the loaded snapshot and the embedding model (\<open>None\<close> before
  \<open>load_index\<close>). The model is the function \<open>encode\<close> of the external library; the
  calls into the external libraries are taken to return.
\<close>

record geological_search_engine =
  index_data :: "index_snapshot option"
  model :: "(ustring \<Rightarrow> real list) option"

definition vectorize_query :: "geological_search_engine \<Rightarrow> ustring \<Rightarrow> error + real list" where
  "vectorize_query self query =
     (case model self of
        None \<Rightarrow> Inl (ValueError model_not_loaded)
      | Some encode \<Rightarrow> Inr (encode query))"

text \<open>
  \<open>np.argsort\<close>: the indices in ascending order of their values. numpy's default sort
  is not stable and leaves the order of equal values open; the model takes one such
  order, the stable one. No property below depends on the order of equal values.
\<close>

definition argsort :: "real list \<Rightarrow> nat list" where
  "argsort xs = sort_key (\<lambda>i. xs ! i) [0..<length xs]"

text \<open>
  The similarities are single-precision numbers: the index is built with
  \<open>dtype=np.float32\<close>. In \<open>similarity < min_similarity\<close> numpy (from version 2 on)
  converts the Python float to the type of the other operand, so the comparison is
  with the threshold rounded to float32: to the nearest number with a significand of
  24 bits, a tie to the even neighbour, on the fixed grid of the subnormal numbers
  below \<open>2 ^ -126\<close>. (A threshold beyond the range of float32 becomes infinite there;
  against similarities, which are finite, the comparison with the rounded real number
  gives the same answer.) \<open>float(similarity)\<close> is exact, so the result stores the
  single-precision value itself.
\<close>

definition round_half_even :: "real \<Rightarrow> int" where
  "round_half_even y =
     (let f = \<lfloor>y\<rfloor>; d = y - of_int f
      in if d < 1 / 2 then f else if d > 1 / 2 then f + 1
         else if even f then f else f + 1)"

definition float32_magnitude :: "real \<Rightarrow> real" where
  "float32_magnitude x =
     (if x = 0 then 0
      else let e = max \<lfloor>log 2 x\<rfloor> (- 126);
               ulp = 2 powr (of_int e - 23)
           in of_int (round_half_even (x / ulp)) * ulp)"

definition float32 :: "real \<Rightarrow> real" where
  "float32 x = (if x < 0 then - float32_magnitude (- x) else float32_magnitude x)"

text \<open>
  The \<open>for i, idx in enumerate(ranked_indices)\<close> loop of \<open>search\<close>, with its two
  \<open>break\<close>s. The indices come from \<open>argsort\<close>, so \<open>similarities[idx]\<close> is in range;
  \<open>chunks[idx]\<close> raises when the snapshot has fewer chunks than rows.
\<close>

fun search_loop ::
  "chunk list \<Rightarrow> real list \<Rightarrow> int \<Rightarrow> real \<Rightarrow> int \<Rightarrow> nat list \<Rightarrow> search_result list \<Rightarrow>
   error + search_result list" where
  "search_loop cks similarities top_k min_similarity i [] results = Inr results"
| "search_loop cks similarities top_k min_similarity i (idx # rest) results =
     (if i \<ge> top_k then Inr results
      else let s = similarities ! idx
           in if s < float32 min_similarity then Inr results
              else if idx < length cks then
                search_loop cks similarities top_k min_similarity (i + 1) rest
                  (results @ [chunk.extend (cks ! idx) (search_result.fields s (i + 1))])
              else Inl (IndexError (u ''list index out of range'')))"

text \<open>
  \<open>search\<close>. The cosine similarity of the external library is the parameter
  \<open>cosine_similarity\<close>: from the query vector and the matrix to one value per row.
\<close>

definition search ::
  "(real list \<Rightarrow> real list list \<Rightarrow> real list) \<Rightarrow> geological_search_engine \<Rightarrow> ustring \<Rightarrow> int \<Rightarrow> real \<Rightarrow>
   error + search_result list" where
  "search cosine_similarity self query top_k min_similarity =
     (case index_data self of
        None \<Rightarrow> Inl (ValueError index_not_loaded)
      | Some index \<Rightarrow>
          (case vectorize_query self query of
             Inl e \<Rightarrow> Inl e
           | Inr query_vector \<Rightarrow>
               (let similarities = cosine_similarity query_vector (embeddings index);
                    ranked_indices = rev (argsort similarities)
                in search_loop (chunks index) similarities top_k min_similarity 0
                     ranked_indices [])))"

text \<open>
  \<open>get_chunk_context\<close>. The lists \<open>file_chunks\<close> and \<open>context_chunks\<close> hold the
  dictionaries of the snapshot themselves, not copies: a reference is the position of
  the chunk in the snapshot's list, and the assignment to \<open>chunk["is_target"]\<close> is an
  update of the snapshot at that position. The function returns the context and the
  engine as the call leaves it.
\<close>

primrec find_first :: "('a \<Rightarrow> bool) \<Rightarrow> 'a list \<Rightarrow> nat option" where
  "find_first p [] = None"
| "find_first p (x # xs) =
     (if p x then Some 0 else map_option Suc (find_first p xs))"

definition mark_targets :: "ustring \<Rightarrow> chunk list \<Rightarrow> nat list \<Rightarrow> chunk list" where
  "mark_targets cid store refs =
     foldl (\<lambda>st r. st[r := (st ! r)\<lparr>is_target := Some (chunk_id (st ! r) = cid)\<rparr>]) store refs"

definition get_chunk_context ::
  "geological_search_engine \<Rightarrow> ustring \<Rightarrow> int \<Rightarrow> error + (chunk list \<times> geological_search_engine)" where
  "get_chunk_context self cid context_size =
     (case index_data self of
        None \<Rightarrow> Inl (TypeError ([39] @ u ''NoneType'' @ [39] @ u '' object is not subscriptable''))
      | Some index \<Rightarrow>
          (let store = chunks index
           in case find_first (\<lambda>c. chunk_id c = cid) store of
                None \<Rightarrow> Inr ([], self)
              | Some target_idx \<Rightarrow>
                  (let target_chunk = store ! target_idx;
                       file_chunks = filter (\<lambda>r. file_id (store ! r) = file_id target_chunk)
                                       [0..<length store];
                       file_chunks = sort_key (\<lambda>r. chunk_index (store ! r)) file_chunks
                   in case find_first (\<lambda>r. chunk_id (store ! r) = cid) file_chunks of
                        None \<Rightarrow> Inr ([target_chunk], self)
                      | Some target_pos \<Rightarrow>
                          (let start = max 0 (int target_pos - context_size);
                               end' = min (int (length file_chunks))
                                       (int target_pos + context_size + 1);
                               context_chunks = py_slice file_chunks start end';
                               store' = mark_targets cid store context_chunks
                           in Inr (map (\<lambda>r. store' ! r) context_chunks,
                                   self\<lparr>index_data := Some (index\<lparr>chunks := store'\<rparr>)\<rparr>)))))"

text \<open>
  For evaluation: an instance of the parameter \<open>cosine_similarity\<close> (the dot product
  with each row, which is the cosine similarity of vectors of length 1) and a loaded
  engine over three chunks of two files, whose model maps every query to the first
  unit vector.
\<close>

definition dot_similarity :: "real list \<Rightarrow> real list list \<Rightarrow> real list" where
  "dot_similarity query_vector matrix =
     map (\<lambda>row. sum_list (map2 (*) query_vector row)) matrix"

definition sample_chunks :: "chunk list" where
  "sample_chunks =
     [\<lparr>chunk_id = u ''a_chunk_000'', file_id = u ''a'', filename = u ''a.tif'',
       text' = u ''sand and gravel'', chunk_index = 0, is_target = None\<rparr>,
      \<lparr>chunk_id = u ''a_chunk_001'', file_id = u ''a'', filename = u ''a.tif'',
       text' = u ''gravel pit'', chunk_index = 1, is_target = None\<rparr>,
      \<lparr>chunk_id = u ''b_chunk_000'', file_id = u ''b'', filename = u ''b.tif'',
       text' = u ''clay'', chunk_index = 0, is_target = None\<rparr>]"

definition sample_index :: index_snapshot where
  "sample_index =
     \<lparr>chunks = sample_chunks, embeddings = [[1, 0], [3 / 5, 4 / 5], [0, 1]],
      model_name = u ''m'', total_chunks = 3, embedding_dim = 2\<rparr>"

definition sample_engine :: geological_search_engine where
  "sample_engine = \<lparr>index_data = Some sample_index, model = Some (\<lambda>query. [1, 0])\<rparr>"


section \<open>The answer pipeline (rag_system.py)\<close>

text \<open>\<open>str(n)\<close> of an integer, as the f-string prints \<open>chunk_index\<close>.\<close>

fun digits :: "nat \<Rightarrow> ustring" where
  "digits n = (if n < 10 then [48 + n] else digits (n div 10) @ [48 + n mod 10])"

definition py_str :: "int \<Rightarrow> ustring" where
  "py_str i = (if i < 0 then 45 # digits (nat (- i)) else digits (nat i))"

text \<open>
  The constant parts of the f-string of \<open>create_context_from_chunks\<close>: a newline,
  three hyphens and the word for "document"; a comma and the word for "fragment";
  three hyphens and a newline.
\<close>

definition context_head :: ustring where
  "context_head =
     [10, 45, 45, 45, 32, 1044, 1086, 1082, 1091, 1084, 1077, 1085, 1090, 32]"

definition context_mid :: ustring where
  "context_mid =
     [44, 32, 1092, 1088, 1072, 1075, 1084, 1077, 1085, 1090, 32]"

definition context_tail :: ustring where
  "context_tail =
     [32, 45, 45, 45, 10]"

definition format_chunk :: "'a chunk_scheme \<Rightarrow> ustring" where
  "format_chunk chunk =
     context_head @ filename chunk @ context_mid @ py_str (chunk_index chunk) @
     context_tail @ text' chunk @ [10]"

text \<open>
  The estimate of the token count of a formatted chunk, \<open>len(chunk_text) // 4\<close>, and
  the loop of \<open>create_context_from_chunks\<close> over the state \<open>context_parts\<close>,
  \<open>current_length\<close>; the function joins the parts the loop leaves.
\<close>

definition estimated_tokens :: "ustring \<Rightarrow> int" where
  "estimated_tokens chunk_text = int (length chunk_text) div 4"

fun context_loop ::
  "'a chunk_scheme list \<Rightarrow> int \<Rightarrow> ustring list \<Rightarrow> int \<Rightarrow> ustring list \<times> int" where
  "context_loop [] max_tokens context_parts current_length = (context_parts, current_length)"
| "context_loop (chunk # rest) max_tokens context_parts current_length =
     (let chunk_text = format_chunk chunk
      in if current_length + estimated_tokens chunk_text > max_tokens
         then (context_parts, current_length)
         else context_loop rest max_tokens (context_parts @ [chunk_text])
                (current_length + estimated_tokens chunk_text))"

definition create_context_from_chunks :: "'a chunk_scheme list \<Rightarrow> int \<Rightarrow> ustring" where
  "create_context_from_chunks chunk_list max_tokens =
     join [10] (fst (context_loop chunk_list max_tokens [] 0))"

text \<open>The system prompt, a constant Russian text.\<close>

definition create_system_prompt :: ustring where
  "create_system_prompt =
     [1058, 1099, 32, 45, 32, 1101, 1082, 1089, 1087, 1077, 1088, 1090, 45, 1075, 1077,
      1086, 1083, 1086, 1075, 44, 32, 1082, 1086, 1090, 1086, 1088, 1099, 1081, 32, 1072,
      1085, 1072, 1083, 1080, 1079, 1080, 1088, 1091, 1077, 1090, 32, 1080, 1089, 1090,
      1086, 1088, 1080, 1095, 1077, 1089, 1082, 1080, 1077, 32, 1075, 1077, 1086, 1083,
      1086, 1075, 1080, 1095, 1077, 1089, 1082, 1080, 1077, 32, 1086, 1090, 1095, 1077,
      1090, 1099, 46, 10, 10, 1058, 1074, 1086, 1103, 32, 1079, 1072, 1076, 1072, 1095,
      1072, 58, 10, 49, 46, 32, 1042, 1085, 1080, 1084, 1072, 1090, 1077, 1083, 1100, 1085,
      1086, 32, 1080, 1079, 1091, 1095, 1080, 1090, 1100, 32, 1087, 1088, 1077, 1076, 1086,
      1089, 1090, 1072, 1074, 1083, 1077, 1085, 1085, 1099, 1077, 32, 1092, 1088, 1072,
      1075, 1084, 1077, 1085, 1090, 1099, 32, 1075, 1077, 1086, 1083, 1086, 1075, 1080,
      1095, 1077, 1089, 1082, 1080, 1093, 32, 1076, 1086, 1082, 1091, 1084, 1077, 1085,
      1090, 1086, 1074, 10, 50, 46, 32, 1054, 1090, 1074, 1077, 1090, 1080, 1090, 1100, 32,
      1085, 1072, 32, 1074, 1086, 1087, 1088, 1086, 1089, 32, 1087, 1086, 1083, 1100, 1079,
      1086, 1074, 1072, 1090, 1077, 1083, 1103, 32, 1085, 1072, 32, 1086, 1089, 1085, 1086,
      1074, 1077, 32, 1080, 1085, 1092, 1086, 1088, 1084, 1072, 1094, 1080, 1080, 32, 1080,
      1079, 32, 1076, 1086, 1082, 1091, 1084, 1077, 1085, 1090, 1086, 1074, 10, 51, 46, 32,
      1045, 1089, 1083, 1080, 32, 1080, 1085, 1092, 1086, 1088, 1084, 1072, 1094, 1080,
      1080, 32, 1085, 1077, 1076, 1086, 1089, 1090, 1072, 1090, 1086, 1095, 1085, 1086, 44,
      32, 1095, 1077, 1089, 1090, 1085, 1086, 32, 1089, 1082, 1072, 1079, 1072, 1090, 1100,
      32, 1086, 1073, 32, 1101, 1090, 1086, 1084, 10, 52, 46, 32, 1059, 1082, 1072, 1079,
      1072, 1090, 1100, 44, 32, 1080, 1079, 32, 1082, 1072, 1082, 1080, 1093, 32, 1076,
      1086, 1082, 1091, 1084, 1077, 1085, 1090, 1086, 1074, 32, 1074, 1079, 1103, 1090,
      1072, 32, 1080, 1085, 1092, 1086, 1088, 1084, 1072, 1094, 1080, 1103, 10, 53, 46, 32,
      1048, 1089, 1087, 1086, 1083, 1100, 1079, 1086, 1074, 1072, 1090, 1100, 32, 1087,
      1088, 1086, 1092, 1077, 1089, 1089, 1080, 1086, 1085, 1072, 1083, 1100, 1085, 1091,
      1102, 32, 1075, 1077, 1086, 1083, 1086, 1075, 1080, 1095, 1077, 1089, 1082, 1091,
      1102, 32, 1090, 1077, 1088, 1084, 1080, 1085, 1086, 1083, 1086, 1075, 1080, 1102, 10,
      10, 1055, 1088, 1072, 1074, 1080, 1083, 1072, 32, 1086, 1090, 1074, 1077, 1090, 1072,
      58, 10, 45, 32, 1054, 1090, 1074, 1077, 1095, 1072, 1081, 32, 1090, 1086, 1083, 1100,
      1082, 1086, 32, 1085, 1072, 32, 1088, 1091, 1089, 1089, 1082, 1086, 1084, 32, 1103,
      1079, 1099, 1082, 1077, 10, 45, 32, 1041, 1091, 1076, 1100, 32, 1090, 1086, 1095,
      1077, 1085, 32, 1080, 32, 1082, 1086, 1085, 1082, 1088, 1077, 1090, 1077, 1085, 10,
      45, 32, 1057, 1089, 1099, 1083, 1072, 1081, 1089, 1103, 32, 1085, 1072, 32, 1080,
      1089, 1090, 1086, 1095, 1085, 1080, 1082, 1080, 32, 1080, 1085, 1092, 1086, 1088,
      1084, 1072, 1094, 1080, 1080, 10, 45, 32, 1045, 1089, 1083, 1080, 32, 1074, 32, 1076,
      1086, 1082, 1091, 1084, 1077, 1085, 1090, 1072, 1093, 32, 1085, 1077, 1090, 32, 1086,
      1090, 1074, 1077, 1090, 1072, 32, 1085, 1072, 32, 1074, 1086, 1087, 1088, 1086, 1089,
      44, 32, 1090, 1072, 1082, 32, 1080, 32, 1089, 1082, 1072, 1078, 1080, 10, 45, 32,
      1053, 1077, 32, 1087, 1088, 1080, 1076, 1091, 1084, 1099, 1074, 1072, 1081, 32, 1080,
      1085, 1092, 1086, 1088, 1084, 1072, 1094, 1080, 1102, 44, 32, 1082, 1086, 1090, 1086,
      1088, 1086, 1081, 32, 1085, 1077, 1090, 32, 1074, 32, 1076, 1086, 1082, 1091, 1084,
      1077, 1085, 1090, 1072, 1093]"

text \<open>The constant parts of the user prompt, around the context and the question.\<close>

definition prompt_head :: ustring where
  "prompt_head =
     [10, 1050, 1086, 1085, 1090, 1077, 1082, 1089, 1090, 32, 1080, 1079, 32, 1075, 1077,
      1086, 1083, 1086, 1075, 1080, 1095, 1077, 1089, 1082, 1080, 1093, 32, 1076, 1086,
      1082, 1091, 1084, 1077, 1085, 1090, 1086, 1074, 58, 10]"

definition prompt_mid :: ustring where
  "prompt_mid =
     [10, 10, 1042, 1086, 1087, 1088, 1086, 1089, 32, 1087, 1086, 1083, 1100, 1079, 1086,
      1074, 1072, 1090, 1077, 1083, 1103, 58, 32]"

definition prompt_tail :: ustring where
  "prompt_tail =
     [10, 10, 1055, 1088, 1086, 1072, 1085, 1072, 1083, 1080, 1079, 1080, 1088, 1091, 1081,
      32, 1087, 1088, 1077, 1076, 1086, 1089, 1090, 1072, 1074, 1083, 1077, 1085, 1085,
      1099, 1077, 32, 1076, 1086, 1082, 1091, 1084, 1077, 1085, 1090, 1099, 32, 1080, 32,
      1076, 1072, 1081, 32, 1088, 1072, 1079, 1074, 1077, 1088, 1085, 1091, 1090, 1099,
      1081, 32, 1086, 1090, 1074, 1077, 1090, 32, 1085, 1072, 32, 1074, 1086, 1087, 1088,
      1086, 1089, 46, 32, 1054, 1073, 1103, 1079, 1072, 1090, 1077, 1083, 1100, 1085, 1086,
      32, 1091, 1082, 1072, 1078, 1080, 44, 32, 1080, 1079, 32, 1082, 1072, 1082, 1080,
      1093, 32, 1076, 1086, 1082, 1091, 1084, 1077, 1085, 1090, 1086, 1074, 32, 1074, 1079,
      1103, 1090, 1072, 32, 1080, 1085, 1092, 1086, 1088, 1084, 1072, 1094, 1080, 1103, 46,
      10]"

text \<open>
  The fixed answer of \<open>ask_question\<close> when the search finds nothing, the four confidence
  labels (the Russian words for "high", "medium", "low" and "error"), and the prefixes
  of the two failure messages.
\<close>

definition not_found_text :: ustring where
  "not_found_text =
     [1050, 32, 1089, 1086, 1078, 1072, 1083, 1077, 1085, 1080, 1102, 44, 32, 1103, 32,
      1085, 1077, 32, 1085, 1072, 1096, 1077, 1083, 32, 1088, 1077, 1083, 1077, 1074, 1072,
      1085, 1090, 1085, 1086, 1081, 32, 1080, 1085, 1092, 1086, 1088, 1084, 1072, 1094,
      1080, 1080, 32, 1074, 32, 1076, 1086, 1089, 1090, 1091, 1087, 1085, 1099, 1093, 32,
      1075, 1077, 1086, 1083, 1086, 1075, 1080, 1095, 1077, 1089, 1082, 1080, 1093, 32,
      1076, 1086, 1082, 1091, 1084, 1077, 1085, 1090, 1072, 1093, 32, 1076, 1083, 1103, 32,
      1086, 1090, 1074, 1077, 1090, 1072, 32, 1085, 1072, 32, 1074, 1072, 1096, 32, 1074,
      1086, 1087, 1088, 1086, 1089, 46]"

definition confidence_high :: ustring where
  "confidence_high =
     [1074, 1099, 1089, 1086, 1082, 1072, 1103]"

definition confidence_medium :: ustring where
  "confidence_medium =
     [1089, 1088, 1077, 1076, 1085, 1103, 1103]"

definition confidence_low :: ustring where
  "confidence_low =
     [1085, 1080, 1079, 1082, 1072, 1103]"

definition confidence_error :: ustring where
  "confidence_error =
     [1086, 1096, 1080, 1073, 1082, 1072]"

definition failure_prefix :: ustring where
  "failure_prefix =
     [1055, 1088, 1086, 1080, 1079, 1086, 1096, 1083, 1072, 32, 1086, 1096, 1080, 1073,
      1082, 1072, 32, 1087, 1088, 1080, 32, 1086, 1073, 1088, 1072, 1073, 1086, 1090, 1082,
      1077, 32, 1074, 1086, 1087, 1088, 1086, 1089, 1072, 58, 32]"

definition api_failure_prefix :: ustring where
  "api_failure_prefix =
     [1054, 1096, 1080, 1073, 1082, 1072, 32, 1087, 1088, 1080, 32, 1086, 1073, 1088, 1072,
      1097, 1077, 1085, 1080, 1080, 32, 1082, 32, 79, 112, 101, 110, 65, 73, 32, 65, 80, 73,
      58, 32]"

text \<open>
  The external generator. The client offers the chat call under the legacy and under the
  new interface; either returns the content of the first choice or raises.
\<close>

record chat_request =
  req_model :: ustring
  req_system :: ustring
  req_user :: ustring
  req_max_tokens :: int
  req_temperature :: real

record openai_client =
  ChatCompletion_create :: "chat_request \<Rightarrow> error + ustring"
  chat_completions_create :: "chat_request \<Rightarrow> error + ustring"

record geological_rag_system =
  client :: openai_client
  use_legacy_api :: bool
  search_engine :: geological_search_engine

record source_ref =
  src_filename :: ustring
  src_chunk_id :: ustring
  src_similarity :: real

record rag_answer =
  question :: ustring
  answer :: ustring
  sources :: "source_ref list"
  confidence :: ustring
  chunks_used :: "int option"
  error :: "ustring option"

text \<open>\<open>round(x, 3)\<close>: to three decimals, a tie to the even neighbour.\<close>

definition py_round3 :: "real \<Rightarrow> real" where
  "py_round3 x =
     (let y = x * 1000; f = \<lfloor>y\<rfloor>; d = y - of_int f;
          r = (if d < 1 / 2 then f else if d > 1 / 2 then f + 1
               else if even f then f else f + 1)
      in of_int r / 1000)"

text \<open>The dictionary the outer \<open>except\<close> clause of \<open>ask_question\<close> returns.\<close>

definition failure :: "ustring \<Rightarrow> error \<Rightarrow> rag_answer" where
  "failure q e =
     \<lparr>question = q, answer = failure_prefix @ str_error e, sources = [],
      confidence = confidence_error, chunks_used = None, error = Some (str_error e)\<rparr>"

text \<open>
  \<open>ask_question\<close> returns its dictionary and the requests it sent to the generator, in
  order; an empty list is a call that never reached the generator.
\<close>

definition ask_question ::
  "(real list \<Rightarrow> real list list \<Rightarrow> real list) \<Rightarrow> geological_rag_system \<Rightarrow> ustring \<Rightarrow> int \<Rightarrow> real \<Rightarrow>
   rag_answer \<times> chat_request list" where
  "ask_question cosine_similarity self q max_chunks min_similarity =
     (case search cosine_similarity (search_engine self) q max_chunks min_similarity of
        Inl e \<Rightarrow> (failure q e, [])
      | Inr search_results \<Rightarrow>
          if search_results = [] then
            (\<lparr>question = q, answer = not_found_text, sources = [],
              confidence = confidence_low, chunks_used = None, error = None\<rparr>, [])
          else
            (let context = create_context_from_chunks search_results 6000;
                 user_prompt = prompt_head @ context @ prompt_mid @ q @ prompt_tail;
                 request = \<lparr>req_model = u ''gpt-3.5-turbo'', req_system = create_system_prompt,
                            req_user = user_prompt, req_max_tokens = 1500,
                            req_temperature = 3 / 10\<rparr>;
                 response = (if use_legacy_api self
                             then ChatCompletion_create (client self) request
                             else chat_completions_create (client self) request)
             in case response of
                  Inl api_error \<Rightarrow>
                    (failure q (Exception (api_failure_prefix @ str_error api_error)), [request])
                | Inr content \<Rightarrow>
                    (let sources = map (\<lambda>chunk. \<lparr>src_filename = filename chunk,
                                                   src_chunk_id = chunk_id chunk,
                                                   src_similarity = py_round3 (similarity chunk)\<rparr>)
                                     search_results;
                         avg_similarity = sum_list (map similarity search_results)
                                            / real (length search_results);
                         conf = (if avg_similarity > 3 / 10 then confidence_high
                                 else if avg_similarity > 1 / 10 then confidence_medium
                                 else confidence_low)
                     in (\<lparr>question = q, answer = strip content, sources = sources,
                          confidence = conf,
                          chunks_used = Some (int (length search_results)), error = None\<rparr>,
                         [request]))))"

text \<open>The defaults of \<open>ask_question\<close>: five chunks, similarity at least 0.01.\<close>

definition ask_question_default ::
  "(real list \<Rightarrow> real list list \<Rightarrow> real list) \<Rightarrow> geological_rag_system \<Rightarrow> ustring \<Rightarrow>
   rag_answer \<times> chat_request list" where
  "ask_question_default cosine_similarity self q =
     ask_question cosine_similarity self q 5 (1 / 100)"

text \<open>
  For evaluation: a generator that answers every request, one that raises on every
  request, and an engine whose model maps every query to the zero vector, so that every
  chunk scores 0.
\<close>

definition answering_client :: openai_client where
  "answering_client =
     \<lparr>ChatCompletion_create = (\<lambda>request. Inr (u '' gravel '')),
      chat_completions_create = (\<lambda>request. Inr (u '' gravel ''))\<rparr>"

definition failing_client :: openai_client where
  "failing_client =
     \<lparr>ChatCompletion_create = (\<lambda>request. Inl (Exception (u ''timeout''))),
      chat_completions_create = (\<lambda>request. Inl (Exception (u ''timeout'')))\<rparr>"

definition silent_engine :: geological_search_engine where
  "silent_engine = \<lparr>index_data = Some sample_index, model = Some (\<lambda>query. [0, 0])\<rparr>"

section \<open>Properties of the chunker\<close>

lemmas chunk_eval =
  chunk_end_def next_start_def u_def rfind_def py_index_def py_slice_def Let_def

lemmas emit_eval = u_def py_slice_def py_index_def strip_def is_space_def emit_def

lemma length_u [simp]: "length (u s) = length s"
  by (simp add: u_def)

text \<open>
  When the overlap is smaller than the chunk size, the next start lies behind the
  current one, whatever the break point was: the first argument of the \<open>max\<close> is
  already larger.
\<close>

lemma next_start_increases:
  "overlap < chunk_size \<Longrightarrow> start < next_start text chunk_size overlap start"
  by (simp add: next_start_def)

lemma chunk_loop_returns:
  assumes "overlap < chunk_size"
  shows "\<exists>ys. chunk_loop text chunk_size overlap start acc = Some ys"
proof (induction "nat (int (length text) - start)" arbitrary: start acc rule: less_induct)
  case less
  show ?case
  proof (cases "start < int (length text)")
    case False
    then show ?thesis
      by (subst chunk_loop.simps) simp
  next
    case inside: True
    let ?e = "chunk_end text chunk_size start"
    let ?s = "next_start text chunk_size overlap start"
    show ?thesis
    proof (cases "?e \<ge> int (length text)")
      case True
      with inside show ?thesis
        by (subst chunk_loop.simps) (simp add: Let_def)
    next
      case False
      have "start < ?s"
        using assms by (rule next_start_increases)
      with inside have "nat (int (length text) - ?s) < nat (int (length text) - start)"
        by linarith
      from less [OF this] obtain ys
        where "chunk_loop text chunk_size overlap ?s
                 (emit acc (strip (py_slice text start ?e))) = Some ys"
        by blast
      with inside False show ?thesis
        by (subst chunk_loop.simps) (simp add: Let_def)
    qed
  qed
qed

text \<open>
  C1 (as amended). For a chunk size of at least 1 and an overlap from 0 up to, but not
  including, the chunk size, every pass of the scanning loop moves \<open>start\<close> strictly
  forward, and \<open>split_text_into_chunks\<close> returns on every text.
\<close>

theorem split_text_into_chunks_terminates:
  assumes "1 \<le> chunk_size" and "0 \<le> overlap" and "overlap < chunk_size"
  shows "start < next_start text chunk_size overlap start \<and>
         (\<exists>chunks. split_text_into_chunks text chunk_size overlap = Some chunks)"
proof
  show "start < next_start text chunk_size overlap start"
    using assms(3) by (rule next_start_increases)
next
  from chunk_loop_returns [OF assms(3)]
  obtain ys where "chunk_loop text chunk_size overlap 0 [] = Some ys"
    by blast
  then show "\<exists>chunks. split_text_into_chunks text chunk_size overlap = Some chunks"
    by (simp add: split_text_into_chunks_def)
qed

theorem split_text_into_chunks_terminates_witness:
  "(1::int) \<le> 8 \<and> (0::int) \<le> 3 \<and> (3::int) < 8 \<and>
   5 < next_start (u ''one two three four'') 8 3 5 \<and>
   (\<exists>chunks. split_text_into_chunks (u ''one two three four'') 8 3 = Some chunks)"
  using split_text_into_chunks_terminates [of 8 3 5 "u ''one two three four''"]
  by simp

text \<open>
  With the overlap equal to the chunk size the loop stands still. On the text
  \<open>aaaa\<close> with chunk size 2 and overlap 2 the first window ends at 2, before the end of
  the text, and the next window starts at 0 again.
\<close>

lemma chunk_end_aaaa: "chunk_end (u ''aaaa'') 2 0 = 2"
  by (simp add: chunk_eval)

lemma next_start_aaaa: "next_start (u ''aaaa'') 2 2 0 = 0"
  by (simp add: chunk_eval)

lemma chunk_loop_aaaa_never_returns:
  assumes "chunk_loop t cs ov st acc = Some ys"
  shows "\<not> (t = u ''aaaa'' \<and> cs = 2 \<and> ov = 2 \<and> st = 0)"
proof (rule chunk_loop.raw_induct
    [where P = "\<lambda>t cs ov st acc ys. \<not> (t = u ''aaaa'' \<and> cs = 2 \<and> ov = 2 \<and> st = 0)",
     OF _ assms])
  fix f t cs ov st acc ys
  assume IH: "\<And>t cs ov st acc ys. f t cs ov st acc = Some ys \<Longrightarrow>
                \<not> (t = u ''aaaa'' \<and> cs = 2 \<and> ov = 2 \<and> st = 0)"
    and body: "(if st < int (length t) then
                  (let e = chunk_end t cs st;
                       chunks' = emit acc (strip (py_slice t st e))
                   in if e \<ge> int (length t) then Some chunks'
                      else f t cs ov (next_start t cs ov st) chunks')
                else Some acc) = Some ys"
  show "\<not> (t = u ''aaaa'' \<and> cs = 2 \<and> ov = 2 \<and> st = 0)"
  proof
    assume a: "t = u ''aaaa'' \<and> cs = 2 \<and> ov = 2 \<and> st = 0"
    have inside: "(0::int) < int (length (u ''aaaa''))"
      by (simp add: u_def)
    have more: "\<not> (2::int) \<ge> int (length (u ''aaaa''))"
      by (simp add: u_def)
    from body a inside more
    have "f (u ''aaaa'') 2 2 0 (emit acc (strip (py_slice (u ''aaaa'') 0 2))) = Some ys"
      by (simp add: chunk_end_aaaa next_start_aaaa)
    from IH [OF this] show False
      by simp
  qed
qed

lemma chunk_loop_aaaa: "chunk_loop (u ''aaaa'') 2 2 0 [] = None"
  using chunk_loop_aaaa_never_returns [of "u ''aaaa''" 2 2 0 "[]"]
  by (cases "chunk_loop (u ''aaaa'') 2 2 0 []") auto

text \<open>
  C1 (as stated) fails: with chunk size 2 and overlap 2, both within the claim's
  range, the pass at \<open>start = 0\<close> ends its window at 2 of 4 characters, continues with
  \<open>start = 0\<close>, and the function never returns.
\<close>

theorem split_text_into_chunks_stalls:
  "chunk_end (u ''aaaa'') 2 0 = 2 \<and> next_start (u ''aaaa'') 2 2 0 = 0 \<and>
   split_text_into_chunks (u ''aaaa'') 2 2 = None"
proof -
  have "\<not> int (length (u ''aaaa'')) \<le> 2"
    by (simp add: u_def)
  then have "split_text_into_chunks (u ''aaaa'') 2 2 = None"
    by (simp add: split_text_into_chunks_def chunk_loop_aaaa)
  then show ?thesis
    by (simp add: chunk_end_aaaa next_start_aaaa)
qed

text \<open>
  The overlap of consecutive chunks. A window never ends behind \<open>start + chunk_size\<close>,
  so the second argument of the \<open>max\<close> in the advance never exceeds the first: from a
  start that is not negative the next window starts \<open>chunk_size - overlap\<close> further,
  wherever the break point has put the end of the current one.
\<close>

lemma last_index_less: "last_index xs c = Some i \<Longrightarrow> i < length xs"
  by (induction xs arbitrary: i) (auto split: option.splits if_splits)

lemma rfind_less:
  assumes "0 \<le> b"
  shows "rfind text c a b < b"
proof (cases "last_index (py_slice text a b) c")
  case None
  with assms show ?thesis by (simp add: rfind_def)
next
  case (Some i)
  let ?n = "int (length text)"
  from last_index_less [OF Some] have "i < length (py_slice text a b)" .
  then have "py_index ?n a + i < py_index ?n b"
    by (simp add: py_slice_def Let_def) linarith
  moreover have "int (py_index ?n b) \<le> b"
    using assms by (simp add: py_index_def)
  ultimately show ?thesis
    using Some by (simp add: rfind_def)
qed

lemma chunk_end_le:
  assumes "0 \<le> start" and "0 \<le> chunk_size"
  shows "chunk_end text chunk_size start \<le> start + chunk_size"
proof -
  let ?e = "min (start + chunk_size) (int (length text))"
  have e: "0 \<le> ?e" using assms by simp
  have "rfind text 32 start ?e < ?e" "rfind text 10 start ?e < ?e" "rfind text 46 start ?e < ?e"
    using e by (rule rfind_less)+
  then show ?thesis
    by (auto simp: chunk_end_def Let_def)
qed

lemma next_start_stride:
  assumes "0 \<le> start" and "0 \<le> chunk_size"
  shows "next_start text chunk_size overlap start = start + chunk_size - overlap"
  using chunk_end_le [OF assms] by (simp add: next_start_def)

text \<open>
  On the text \<open>a bcccccccccccc\<close> (15 characters) with
  chunk size 10 and overlap 2, the first window is cut back to the break after the
  space and covers the positions 0 and 1; the next window starts at 8.
\<close>

lemma chunk_end_gap_0: "chunk_end (u ''a bcccccccccccc'') 10 0 = 2"
  by (simp add: chunk_eval)

lemma next_start_gap_0: "next_start (u ''a bcccccccccccc'') 10 2 0 = 8"
  by (simp add: chunk_eval)

lemma chunk_end_gap_8: "chunk_end (u ''a bcccccccccccc'') 10 8 = 15"
  by (simp add: chunk_eval)

lemma emit_gap_0: "emit [] (strip (py_slice (u ''a bcccccccccccc'') 0 2)) = [u ''a'']"
  by (simp add: emit_eval)

lemma emit_gap_8:
  "emit [u ''a''] (strip (py_slice (u ''a bcccccccccccc'') 8 15)) = [u ''a'', u ''ccccccc'']"
  by (simp add: emit_eval)

lemma chunk_loop_gap_8:
  "chunk_loop (u ''a bcccccccccccc'') 10 2 8 [u ''a''] = Some [u ''a'', u ''ccccccc'']"
  by (subst chunk_loop.simps) (simp add: Let_def chunk_end_gap_8 emit_gap_8)

lemma chunk_loop_gap_0:
  "chunk_loop (u ''a bcccccccccccc'') 10 2 0 [] = Some [u ''a'', u ''ccccccc'']"
  by (subst chunk_loop.simps)
    (simp add: Let_def chunk_end_gap_0 next_start_gap_0 emit_gap_0 chunk_loop_gap_8)

text \<open>
  C4 at the failing input: chunk size 10 is at least the overlap 2, the first chunk is
  not the last, and yet the regions \<open>[0, 2)\<close> and \<open>[8, 15)\<close> of the two chunks share no
  character; the characters at the positions 2 to 7 are in no chunk.
\<close>

theorem split_text_into_chunks_gap:
  "chunk_end (u ''a bcccccccccccc'') 10 0 = 2 \<and>
   next_start (u ''a bcccccccccccc'') 10 2 0 = 8 \<and>
   chunk_end (u ''a bcccccccccccc'') 10 8 = 15 \<and>
   split_text_into_chunks (u ''a bcccccccccccc'') 10 2 = Some [u ''a'', u ''ccccccc'']"
proof -
  have "\<not> int (length (u ''a bcccccccccccc'')) \<le> 10"
    by (simp add: u_def)
  then have "split_text_into_chunks (u ''a bcccccccccccc'') 10 2 = Some [u ''a'', u ''ccccccc'']"
    by (simp add: split_text_into_chunks_def chunk_loop_gap_0)
  then show ?thesis
    by (simp add: chunk_end_gap_0 next_start_gap_0 chunk_end_gap_8)
qed

section \<open>Properties of the text normalizer\<close>

text \<open>
  The substitutions only drop characters or put a space in their place, and splitting
  at a separator undoes joining with it.
\<close>

lemma set_sub_runs: "set (sub_runs p s) \<subseteq> insert 32 {c \<in> set s. \<not> p c}"
proof (induction p s rule: sub_runs.induct)
  case (1 p)
  then show ?case by simp
next
  case (2 p c cs)
  show ?case
  proof (cases "p c")
    case True
    with 2(1) have "set (sub_runs p (dropWhile p cs)) \<subseteq> insert 32 {c \<in> set (dropWhile p cs). \<not> p c}"
      by simp
    also have "\<dots> \<subseteq> insert 32 {x \<in> set (c # cs). \<not> p x}"
      by (auto dest: set_dropWhileD)
    finally show ?thesis using True by simp
  next
    case False
    with 2(2) show ?thesis by auto
  qed
qed

lemma set_strip_leads: "set (strip_leads bol s) \<subseteq> set s"
proof (induction bol s rule: strip_leads.induct)
  case (1 bol)
  then show ?case by simp
next
  case (2 bol c cs)
  let ?r1 = "dropWhile is_space (c # cs)"
  let ?r2 = "dropWhile is_lead ?r1"
  let ?ws = "takeWhile is_space ?r2"
  let ?r3 = "dropWhile is_space ?r2"
  show ?case
  proof (cases "bol \<and> ?r2 \<noteq> ?r1")
    case True
    have "set (strip_leads (?ws \<noteq> [] \<and> last ?ws = 10) ?r3) \<subseteq> set ?r3"
      using 2(1) [OF refl refl refl refl True] .
    also have "\<dots> \<subseteq> set (c # cs)"
      by (meson set_dropWhileD subsetI)
    finally show ?thesis
      using True by (simp add: Let_def)
  next
    case False
    have "set (strip_leads (c = 10) cs) \<subseteq> set cs"
      using 2(2) [OF refl refl refl refl False] .
    then show ?thesis
      using False by (auto simp: Let_def)
  qed
qed

lemma set_collapse_blank: "set (collapse_blank s) \<subseteq> set s"
proof (induction s rule: collapse_blank.induct)
  case 1
  then show ?case by simp
next
  case (2 c cs)
  show ?case
  proof (cases "c = 10")
    case False
    from 2(3) [OF False] show ?thesis
      using False by auto
  next
    case True
    show ?thesis
    proof (cases "last_index (takeWhile is_space cs) 10")
      case None
      from 2(1) [OF True None] show ?thesis
        using True None by auto
    next
      case (Some i)
      from 2(2) [OF True Some]
      have "set (collapse_blank (drop (Suc i) cs)) \<subseteq> set (drop (Suc i) cs)" .
      also have "\<dots> \<subseteq> set cs"
        by (rule set_drop_subset)
      finally show ?thesis
        using True Some by auto
    qed
  qed
qed

lemma set_strip: "set (strip s) \<subseteq> set s"
  unfolding strip_def by (auto dest!: set_dropWhileD)

lemma split_on_not_Nil: "split_on sep s \<noteq> []"
  by (induction s) (auto split: list.splits)

lemma split_on_absent: "sep \<notin> set s \<Longrightarrow> split_on sep s = [s]"
  by (induction s) auto

lemma split_on_free: "l \<in> set (split_on sep s) \<Longrightarrow> sep \<notin> set l"
  by (induction s arbitrary: l) (auto split: if_splits list.splits)

lemma split_on_append_sep:
  "sep \<notin> set x \<Longrightarrow> split_on sep (x @ sep # r) = x # split_on sep r"
  by (induction x) auto

lemma split_on_join:
  "ls \<noteq> [] \<Longrightarrow> \<forall>l \<in> set ls. sep \<notin> set l \<Longrightarrow> split_on sep (join [sep] ls) = ls"
proof (induction "[sep]" ls rule: join.induct)
  case 1
  then show ?case by simp
next
  case (2 x)
  then show ?case by (simp add: split_on_absent)
next
  case (3 x y ys)
  then show ?case by (simp add: split_on_append_sep)
qed

lemma newline_is_space: "is_space 10"
  by (simp add: is_space_def)

lemma collapsed_no_newline: "10 \<notin> set (sub_runs is_space s)"
  using set_sub_runs [of is_space s] newline_is_space by auto

text \<open>
  C10. The string \<open>clean_ocr_text\<close> returns never contains a newline: the fourth
  substitution turns every run of white space, newlines included, into one space, the
  later steps add no character, so the text is one line when it is split.
\<close>

theorem clean_ocr_text_single_line: "10 \<notin> set (clean_ocr_text is_word t)"
proof -
  define t4 where "t4 = sub_runs is_space (map (\<lambda>c. if is_kept is_word c then c else 32)
    (sub_rules (sub_runs (\<lambda>c. c = 124) t)))"
  define t6 where "t6 = collapse_blank (strip_leads True t4)"
  have "10 \<notin> set t4"
    unfolding t4_def by (rule collapsed_no_newline)
  then have free: "10 \<notin> set t6"
    unfolding t6_def using set_collapse_blank set_strip_leads by blast
  then have lines: "split_on 10 t6 = [t6]"
    by (rule split_on_absent)
  have "clean_ocr_text is_word t =
      join [10] (filter (\<lambda>line. 2 < length line) (map strip (split_on 10 t6)))"
    unfolding clean_ocr_text_def Let_def t6_def t4_def ..
  then have "clean_ocr_text is_word t =
      join [10] (filter (\<lambda>line. 2 < length line) (map strip [t6]))"
    by (simp only: lines)
  moreover have "10 \<notin> set (strip t6)"
    using free set_strip by blast
  ultimately show ?thesis
    by simp
qed

text \<open>
  C9. \<open>clean_ocr_text\<close> is a total function (every recursion above has its termination
  proof) and returns a string for every input; the string is empty, or each of its
  lines is longer than 2 characters.
\<close>

theorem clean_ocr_text_lines_long:
  "clean_ocr_text is_word t = [] \<or>
   (\<forall>line \<in> set (split_on 10 (clean_ocr_text is_word t)). 2 < length line)"
proof -
  define t6 where "t6 = collapse_blank (strip_leads True (sub_runs is_space
    (map (\<lambda>c. if is_kept is_word c then c else 32) (sub_rules (sub_runs (\<lambda>c. c = 124) t)))))"
  define clean_lines where
    "clean_lines = filter (\<lambda>line. 2 < length line) (map strip (split_on 10 t6))"
  have res: "clean_ocr_text is_word t = join [10] clean_lines"
    unfolding clean_ocr_text_def Let_def clean_lines_def t6_def ..
  have long: "\<forall>l \<in> set clean_lines. 2 < length l"
    unfolding clean_lines_def by simp
  have free: "\<forall>l \<in> set clean_lines. 10 \<notin> set l"
    unfolding clean_lines_def using split_on_free set_strip by fastforce
  show ?thesis
  proof (cases "clean_lines = []")
    case True
    then show ?thesis by (simp add: res)
  next
    case False
    then have "split_on 10 (join [10] clean_lines) = clean_lines"
      using free by (rule split_on_join)
    with long show ?thesis by (simp add: res)
  qed
qed

lemma clean_ocr_text_example:
  "clean_ocr_text ascii_word (u ''| ok'' @ [10] @ u ''go'') = u ''ok go''"
  by (simp add: clean_ocr_text_def u_def is_space_def is_kept_def ascii_word_def
      is_lead_def is_rule_def strip_def Let_def)

theorem clean_ocr_text_lines_long_witness:
  "clean_ocr_text ascii_word (u ''| ok'' @ [10] @ u ''go'') \<noteq> [] \<and>
   split_on 10 (clean_ocr_text ascii_word (u ''| ok'' @ [10] @ u ''go'')) = [u ''ok go''] \<and>
   2 < length (u ''ok go'')"
  using clean_ocr_text_lines_long [of ascii_word "u ''| ok'' @ [10] @ u ''go''"]
  unfolding clean_ocr_text_example
  by (simp add: u_def)

section \<open>Properties of the search engine\<close>

text \<open>
  Rounding to single precision. Rounding to an integer is monotone, a number keeps its
  binade or reaches the next power of two, and so the rounding of the threshold is
  monotone.
\<close>

lemma round_half_even_range:
  "\<lfloor>y\<rfloor> \<le> round_half_even y \<and> round_half_even y \<le> \<lfloor>y\<rfloor> + 1"
  by (simp add: round_half_even_def Let_def)

lemma round_half_even_of_int [simp]: "round_half_even (of_int n) = n"
  by (simp add: round_half_even_def)

lemma round_half_even_zero [simp]: "round_half_even 0 = 0"
  using round_half_even_of_int [of 0] by simp

lemma round_half_even_numeral [simp]: "round_half_even (numeral n) = numeral n"
  using round_half_even_of_int [of "numeral n"] by simp

lemma round_half_even_mono:
  assumes "a \<le> b"
  shows "round_half_even a \<le> round_half_even b"
proof (cases "\<lfloor>a\<rfloor> = \<lfloor>b\<rfloor>")
  case False
  with assms have "\<lfloor>a\<rfloor> < \<lfloor>b\<rfloor>"
    by (simp add: floor_mono order.strict_iff_order)
  then have "\<lfloor>a\<rfloor> + 1 \<le> \<lfloor>b\<rfloor>" by simp
  with round_half_even_range [of a] round_half_even_range [of b] show ?thesis
    by linarith
next
  case True
  with assms have "a - of_int \<lfloor>a\<rfloor> \<le> b - of_int \<lfloor>b\<rfloor>" by simp
  with True show ?thesis
    by (auto simp: round_half_even_def Let_def)
qed

lemma round_half_even_between:
  assumes "of_int n \<le> y" and "y \<le> of_int n'"
  shows "n \<le> round_half_even y \<and> round_half_even y \<le> n'"
  using round_half_even_mono [OF assms(1)] round_half_even_mono [OF assms(2)] by simp


lemma floor_log2_eq:
  assumes "2 powr of_int e \<le> x" and "x < 2 powr (of_int e + 1)"
  shows "\<lfloor>log 2 x\<rfloor> = e"
proof -
  have pos: "0 < x"
    using assms(1) powr_gt_zero [of 2 "of_int e"] by linarith
  have "of_int e \<le> log 2 x"
    using assms(1) pos by (simp add: le_log_iff)
  moreover have "log 2 x < of_int e + 1"
    using assms(2) pos by (simp add: log_less_iff)
  ultimately show ?thesis by linarith
qed









text \<open>
  The rounding of a number between \<open>2 ^ -k\<close> and \<open>2 ^ (1 - k)\<close>, for evaluation.
\<close>

lemma float32_fraction:
  assumes "1 / 2 ^ k \<le> x" and "x < 2 / 2 ^ k" and "k \<le> 126"
  shows "float32 x = of_int (round_half_even (x * 2 ^ (k + 23))) / 2 ^ (k + 23)"
proof -
  have "0 < 1 / (2::real) ^ k"
    by simp
  with assms(1) have pos: "0 < x"
    by linarith
  have p: "2 powr of_int (- int k) = 1 / (2::real) ^ k"
    by (simp add: powr_minus powr_realpow divide_simps)
  have "2 powr (of_int (- int k) + 1) = 2 powr of_int (- int k) * (2::real) powr 1"
    by (rule powr_add)
  moreover have "(2::real) powr 1 = 2"
    by simp
  ultimately have "2 powr (of_int (- int k) + 1) = 2 powr of_int (- int k) * (2::real)"
    by (simp only:)
  with p have q: "2 powr (of_int (- int k) + 1) = 2 / (2::real) ^ k" by simp
  have e: "\<lfloor>log 2 x\<rfloor> = - int k"
    by (rule floor_log2_eq) (use assms p q in simp_all)
  have "- real k - 23 = - real (k + 23)" by simp
  then have "2 powr (- real k - 23) = 2 powr (- real (k + 23))"
    by (simp only:)
  also have "\<dots> = 1 / (2::real) ^ (k + 23)"
    by (simp only: powr_minus powr_realpow [of 2]) (simp add: divide_simps)
  finally have ulp: "2 powr (- real k - 23) = 1 / (2::real) ^ (k + 23)" .
  have m: "max (- int k) (- 126) = - int k" using assms(3) by simp
  show ?thesis
    using pos by (simp add: float32_def float32_magnitude_def Let_def e m ulp)
qed

lemma float32_half: "float32 (1 / 2) = 1 / 2"
  using float32_fraction [of 1 "1 / 2"] by (simp add: round_half_even_def)


lemma float32_four_fifths: "float32 (4 / 5) = 13421773 / 16777216"
  using float32_fraction [of 1 "4 / 5"] by (simp add: round_half_even_def)

lemma float32_hundredth: "float32 (1 / 100) = 5368709 / 536870912"
  using float32_fraction [of 7 "1 / 100"] by (simp add: round_half_even_def)

text \<open>
  The loop of \<open>search\<close> only appends to its result list. The lemmas follow it by
  induction on the ranked indices, with the counter and the list generalised.
\<close>

lemma similarity_extend [simp]:
  "similarity (chunk.extend c (search_result.fields s r)) = s"
  by (simp add: chunk.extend_def search_result.fields_def chunk.defs search_result.defs)

lemma rank_extend [simp]:
  "rank (chunk.extend c (search_result.fields s r)) = r"
  by (simp add: chunk.extend_def search_result.fields_def chunk.defs search_result.defs)




lemma search_loop_length:
  assumes "search_loop cks sims k m i ranked acc = Inr rs"
    and "int (length acc) = i"
  shows "int (length rs) \<le> max i k"
  using assms
proof (induction ranked arbitrary: i acc)
  case Nil
  then show ?case by simp
next
  case (Cons idx rest)
  show ?case
  proof (cases "i \<ge> k \<or> sims ! idx < float32 m")
    case True
    with Cons.prems show ?thesis by (auto simp: Let_def split: if_splits)
  next
    case False
    with Cons.prems(1) have ok: "idx < length cks"
      by (auto simp: Let_def split: if_splits)
    let ?x = "chunk.extend (cks ! idx) (search_result.fields (sims ! idx) (i + 1))"
    from False ok Cons.prems(1)
    have a: "search_loop cks sims k m (i + 1) rest (acc @ [?x]) = Inr rs" by (simp add: Let_def)
    have "int (length (acc @ [?x])) = i + 1" using Cons.prems(2) by simp
    from Cons.IH [OF a this] have "int (length rs) \<le> max (i + 1) k" .
    with False show ?thesis by simp
  qed
qed

lemma search_loop_ranks:
  assumes "search_loop cks sims k m i ranked acc = Inr rs"
    and "int (length acc) = i"
    and "map rank acc = [1..i]"
  shows "map rank rs = [1..int (length rs)]"
  using assms
proof (induction ranked arbitrary: i acc)
  case Nil
  then show ?case by simp
next
  case (Cons idx rest)
  show ?case
  proof (cases "i \<ge> k \<or> sims ! idx < float32 m")
    case True
    with Cons.prems show ?thesis by (auto simp: Let_def split: if_splits)
  next
    case False
    with Cons.prems(1) have ok: "idx < length cks"
      by (auto simp: Let_def split: if_splits)
    let ?x = "chunk.extend (cks ! idx) (search_result.fields (sims ! idx) (i + 1))"
    from False ok Cons.prems(1)
    have a: "search_loop cks sims k m (i + 1) rest (acc @ [?x]) = Inr rs" by (simp add: Let_def)
    have len: "int (length (acc @ [?x])) = i + 1" using Cons.prems(2) by simp
    have "0 \<le> i" using Cons.prems(2) by linarith
    then have "[1..i + 1] = [1..i] @ [i + 1]"
      by (simp add: upto_rec2)
    then have "map rank (acc @ [?x]) = [1..i + 1]" using Cons.prems(3) by simp
    from Cons.IH [OF a len this] show ?thesis .
  qed
qed

lemma search_loop_similarities:
  assumes "search_loop cks sims k m i ranked acc = Inr rs"
  shows "\<exists>n. map similarity rs = map similarity acc @ map ((!) sims) (take n ranked)"
  using assms
proof (induction ranked arbitrary: i acc)
  case Nil
  then show ?case by simp
next
  case (Cons idx rest)
  show ?case
  proof (cases "i \<ge> k \<or> sims ! idx < float32 m")
    case True
    with Cons.prems have "rs = acc" by (auto simp: Let_def split: if_splits)
    then have "map similarity rs = map similarity acc @ map ((!) sims) (take 0 (idx # rest))" by simp
    then show ?thesis by blast
  next
    case False
    with Cons.prems(1) have ok: "idx < length cks"
      by (auto simp: Let_def split: if_splits)
    let ?x = "chunk.extend (cks ! idx) (search_result.fields (sims ! idx) (i + 1))"
    from False ok Cons.prems(1)
    have a: "search_loop cks sims k m (i + 1) rest (acc @ [?x]) = Inr rs" by (simp add: Let_def)
    from Cons.IH [OF a] obtain n where
      "map similarity rs = map similarity (acc @ [?x]) @ map ((!) sims) (take n rest)" by blast
    then have "map similarity rs = map similarity acc @ map ((!) sims) (take (Suc n) (idx # rest))"
      by simp
    then show ?thesis by blast
  qed
qed

lemma argsort_descending: "sorted_wrt (\<ge>) (map ((!) sims) (rev (argsort sims)))"
proof -
  have "sorted (map ((!) sims) (argsort sims))"
    unfolding argsort_def by (rule sorted_sort_key)
  then have "sorted_wrt (\<ge>) (rev (map ((!) sims) (argsort sims)))"
    by (simp add: sorted_wrt_rev)
  then show ?thesis by (simp add: rev_map)
qed

lemma search_returns:
  assumes "search cosine_similarity self q k m = Inr rs"
  shows "\<exists>index encode.
           index_data self = Some index \<and> model self = Some encode \<and>
           search_loop (chunks index) (cosine_similarity (encode q) (embeddings index)) k m 0
             (rev (argsort (cosine_similarity (encode q) (embeddings index)))) [] = Inr rs"
  using assms
  by (auto simp: search_def vectorize_query_def Let_def split: option.splits)

text \<open>The sample engine scores its three chunks 1, 3/5 and 0, whatever the query.\<close>

lemma sample_similarities:
  "dot_similarity [1, 0] [[1, 0], [3 / 5, 4 / 5], [0, 1]] = [1, 3 / 5, 0]"
  by (simp add: dot_similarity_def)

lemma sample_ranked: "rev (argsort [1, 3 / 5, 0]) = [0, 1, 2]"
  by (simp add: argsort_def upt_rec)

lemmas sample_eval =
  search_def sample_engine_def sample_index_def vectorize_query_def sample_similarities
  sample_ranked float32_half float32_four_fifths float32_hundredth Let_def

lemma sample_search_half:
  "search dot_similarity sample_engine q 5 (1 / 2) =
     Inr [chunk.extend (sample_chunks ! 0) (search_result.fields 1 1),
          chunk.extend (sample_chunks ! 1) (search_result.fields (3 / 5) 2)]"
  by (simp add: sample_eval) (simp add: sample_chunks_def)








text \<open>
  C3. When \<open>search\<close> returns, it returns at most \<open>top_k\<close> results (\<open>top_k\<close> is a
  number of results; below 0 it counts as 0 and nothing is returned); the similarities
  do not increase along the list; and the ranks are 1, 2, ... up to the number of
  results.
\<close>

theorem search_ranking:
  assumes "search cosine_similarity self q k m = Inr rs"
  shows "int (length rs) \<le> max 0 k \<and>
         sorted_wrt (\<ge>) (map similarity rs) \<and>
         map rank rs = [1..int (length rs)]"
proof -
  from search_returns [OF assms] obtain index :: index_snapshot and encode
    where run: "search_loop (chunks index) (cosine_similarity (encode q) (embeddings index))
                  k m 0 (rev (argsort (cosine_similarity (encode q) (embeddings index)))) []
                = Inr rs"
    by blast
  let ?sims = "cosine_similarity (encode q) (embeddings index)"
  from search_loop_length [OF run] have "int (length rs) \<le> max 0 k"
    by simp
  moreover from search_loop_similarities [OF run] obtain n
    where "map similarity rs = map ((!) ?sims) (take n (rev (argsort ?sims)))"
    by auto
  then have "map similarity rs = take n (map ((!) ?sims) (rev (argsort ?sims)))"
    by (simp add: take_map)
  then have "sorted_wrt (\<ge>) (map similarity rs)"
    using argsort_descending [of ?sims] by (simp add: sorted_wrt_take)
  moreover from search_loop_ranks [OF run] have "map rank rs = [1..int (length rs)]"
    by simp
  ultimately show ?thesis
    by blast
qed

theorem search_ranking_witness:
  "search dot_similarity sample_engine (u ''sand'') 5 (1 / 2) =
     Inr [chunk.extend (sample_chunks ! 0) (search_result.fields 1 1),
          chunk.extend (sample_chunks ! 1) (search_result.fields (3 / 5) 2)] \<and>
   int (length [chunk.extend (sample_chunks ! 0) (search_result.fields 1 1),
                chunk.extend (sample_chunks ! 1) (search_result.fields (3 / 5) 2)]) \<le> max 0 5 \<and>
   sorted_wrt (\<ge>) (map similarity
     [chunk.extend (sample_chunks ! 0) (search_result.fields 1 1),
      chunk.extend (sample_chunks ! 1) (search_result.fields (3 / 5) 2)]) \<and>
   map rank [chunk.extend (sample_chunks ! 0) (search_result.fields 1 1),
             chunk.extend (sample_chunks ! 1) (search_result.fields (3 / 5) 2)] = [1, 2]"
  using search_ranking [OF sample_search_half [of "u ''sand''"]]
  by (simp add: sample_search_half upto_rec1)

text \<open>
  C8 at the failing input. \<open>get_chunk_context\<close> for the first chunk of file \<open>a\<close> with
  one neighbour on each side returns the two chunks of the file, flagged, and leaves
  the flags in the chunks of the loaded snapshot, which are no longer the chunks that
  were loaded.
\<close>

theorem get_chunk_context_marks_snapshot:
  "get_chunk_context sample_engine (u ''a_chunk_000'') 1 =
     Inr ([(sample_chunks ! 0)\<lparr>is_target := Some True\<rparr>,
           (sample_chunks ! 1)\<lparr>is_target := Some False\<rparr>],
          sample_engine\<lparr>index_data := Some (sample_index\<lparr>chunks :=
            [(sample_chunks ! 0)\<lparr>is_target := Some True\<rparr>,
             (sample_chunks ! 1)\<lparr>is_target := Some False\<rparr>,
             sample_chunks ! 2]\<rparr>)\<rparr>) \<and>
   [(sample_chunks ! 0)\<lparr>is_target := Some True\<rparr>,
    (sample_chunks ! 1)\<lparr>is_target := Some False\<rparr>,
    sample_chunks ! 2] \<noteq> chunks sample_index"
  by (simp add: get_chunk_context_def sample_engine_def sample_index_def sample_chunks_def
      u_def mark_targets_def py_slice_def py_index_def Let_def upt_rec)

section \<open>Properties of the answer pipeline\<close>

text \<open>
  The loop of \<open>create_context_from_chunks\<close> appends the formatted chunks of a prefix
  of its input and adds up their estimates; it stops at the first chunk that does not
  fit.
\<close>

lemma context_loop_prefix:
  assumes "context_loop cs mx parts cur = (parts', cur')"
  shows "\<exists>n \<le> length cs.
           parts' = parts @ map format_chunk (take n cs) \<and>
           cur' = cur + (\<Sum>c\<leftarrow>take n cs. estimated_tokens (format_chunk c)) \<and>
           (n < length cs \<longrightarrow> mx < cur' + estimated_tokens (format_chunk (cs ! n))) \<and>
           (\<forall>j < n. cur + (\<Sum>c\<leftarrow>take (Suc j) cs. estimated_tokens (format_chunk c)) \<le> mx)"
  using assms
proof (induction cs arbitrary: parts cur)
  case Nil
  then show ?case by simp
next
  case (Cons c rest)
  let ?e = "estimated_tokens (format_chunk c)"
  show ?case
  proof (cases "cur + ?e > mx")
    case True
    with Cons.prems have "parts' = parts" "cur' = cur"
      by (simp_all add: Let_def)
    with True show ?thesis
      by (intro exI [of _ 0]) simp
  next
    case False
    with Cons.prems
    have "context_loop rest mx (parts @ [format_chunk c]) (cur + ?e) = (parts', cur')"
      by (simp add: Let_def)
    from Cons.IH [OF this] obtain n where n: "n \<le> length rest"
      "parts' = (parts @ [format_chunk c]) @ map format_chunk (take n rest)"
      "cur' = (cur + ?e) + (\<Sum>c\<leftarrow>take n rest. estimated_tokens (format_chunk c))"
      "n < length rest \<longrightarrow> mx < cur' + estimated_tokens (format_chunk (rest ! n))"
      "\<forall>j < n. (cur + ?e) + (\<Sum>c\<leftarrow>take (Suc j) rest. estimated_tokens (format_chunk c)) \<le> mx"
      by blast
    have "\<forall>j < Suc n. cur + (\<Sum>c\<leftarrow>take (Suc j) (c # rest). estimated_tokens (format_chunk c)) \<le> mx"
    proof (intro allI impI)
      fix j assume "j < Suc n"
      show "cur + (\<Sum>c\<leftarrow>take (Suc j) (c # rest). estimated_tokens (format_chunk c)) \<le> mx"
      proof (cases j)
        case 0
        with False show ?thesis by simp
      next
        case (Suc j')
        with \<open>j < Suc n\<close> n(5) show ?thesis by (simp add: add.assoc)
      qed
    qed
    with n show ?thesis
      by (intro exI [of _ "Suc n"]) (simp add: add.assoc)
  qed
qed

lemma est_nonneg: "0 \<le> estimated_tokens s"
  by (simp add: estimated_tokens_def)

text \<open>
  C7. The parts of the context are the formatted chunks of a prefix of the
  list, whole and in order; the accumulated estimate is the sum of
  \<open>len(chunk_text) // 4\<close> over them; the loop stopped at the first chunk whose estimate
  would lift the sum above the budget (every shorter prefix fits, the next chunk does
  not); the function returns the parts joined by newlines; and the accumulated
  estimate is at most the budget (a budget is a number of tokens, not negative).
\<close>

theorem create_context_within_budget:
  assumes "context_loop chunk_list max_tokens [] 0 = (parts, used)"
  shows "length parts \<le> length chunk_list \<and>
         parts = map format_chunk (take (length parts) chunk_list) \<and>
         used = (\<Sum>c\<leftarrow>take (length parts) chunk_list. estimated_tokens (format_chunk c)) \<and>
         (length parts < length chunk_list \<longrightarrow>
            max_tokens < used + estimated_tokens (format_chunk (chunk_list ! length parts))) \<and>
         (\<forall>j < length parts.
            (\<Sum>c\<leftarrow>take (Suc j) chunk_list. estimated_tokens (format_chunk c)) \<le> max_tokens) \<and>
         create_context_from_chunks chunk_list max_tokens = join [10] parts \<and>
         (0 \<le> max_tokens \<longrightarrow> used \<le> max_tokens)"
proof -
  from context_loop_prefix [OF assms] obtain n where n: "n \<le> length chunk_list"
    "parts = map format_chunk (take n chunk_list)"
    "used = (\<Sum>c\<leftarrow>take n chunk_list. estimated_tokens (format_chunk c))"
    "n < length chunk_list \<longrightarrow> max_tokens < used + estimated_tokens (format_chunk (chunk_list ! n))"
    "\<forall>j < n. (\<Sum>c\<leftarrow>take (Suc j) chunk_list. estimated_tokens (format_chunk c)) \<le> max_tokens"
    by auto
  from n(1,2) have len: "length parts = n"
    by simp
  have "used \<le> max_tokens" if "0 \<le> max_tokens"
  proof (cases n)
    case 0
    with n(3) that show ?thesis by simp
  next
    case (Suc k)
    with n(5) have "(\<Sum>c\<leftarrow>take (Suc k) chunk_list. estimated_tokens (format_chunk c)) \<le> max_tokens"
      by simp
    with n(3) Suc show ?thesis by simp
  qed
  moreover have "create_context_from_chunks chunk_list max_tokens = join [10] parts"
    by (simp add: create_context_from_chunks_def assms)
  ultimately show ?thesis
    using n unfolding len by blast
qed

lemmas format_eval =
  format_chunk_def context_head_def context_mid_def context_tail_def py_str_def
  estimated_tokens_def sample_chunks_def u_def

lemma sample_estimate_0: "estimated_tokens (format_chunk (sample_chunks ! 0)) = 13"
  by (simp add: format_eval)

lemma sample_estimate_1: "estimated_tokens (format_chunk (sample_chunks ! 1)) = 11"
  by (simp add: format_eval)

lemma sample_chunks_nth:
  "sample_chunks = [sample_chunks ! 0, sample_chunks ! 1, sample_chunks ! 2]"
  by (simp add: sample_chunks_def)

lemma context_loop_sample_20:
  "context_loop sample_chunks 20 [] 0 = ([format_chunk (sample_chunks ! 0)], 13)"
  by (subst sample_chunks_nth)
    (simp add: Let_def sample_estimate_0 sample_estimate_1 [unfolded One_nat_def])

theorem create_context_within_budget_witness:
  "context_loop sample_chunks 20 [] 0 = ([format_chunk (sample_chunks ! 0)], 13) \<and>
   (0 :: int) \<le> 20 \<and> (13 :: int) \<le> 20 \<and>
   20 < 13 + estimated_tokens (format_chunk (sample_chunks ! 1)) \<and>
   create_context_from_chunks sample_chunks 20 = format_chunk (sample_chunks ! 0)"
  using create_context_within_budget [OF context_loop_sample_20]
  by (simp add: context_loop_sample_20 sample_estimate_1 [unfolded One_nat_def])

text \<open>
  C5. When the search returns no result, \<open>ask_question\<close> returns the fixed answer with
  no sources and the confidence label for "low", and sends no request to the generator.
  The statement holds for every \<open>max_chunks\<close> and \<open>min_similarity\<close>, the defaults 5 and
  0.01 among them.
\<close>

theorem ask_question_not_found:
  assumes "search cosine_similarity (search_engine self) q max_chunks min_similarity = Inr []"
  shows "ask_question cosine_similarity self q max_chunks min_similarity =
           (\<lparr>question = q, answer = not_found_text, sources = [],
             confidence = confidence_low, chunks_used = None, error = None\<rparr>, [])"
  using assms by (simp add: ask_question_def)

lemma silent_similarities:
  "dot_similarity [0, 0] [[1, 0], [3 / 5, 4 / 5], [0, 1]] = [0, 0, 0]"
  by (simp add: dot_similarity_def)

lemma silent_ranked: "rev (argsort [0, 0, 0]) = [2, 1, 0]"
  by (simp add: argsort_def upt_rec)

lemma silent_search: "search dot_similarity silent_engine q 5 (1 / 100) = Inr []"
  by (simp add: search_def silent_engine_def sample_index_def vectorize_query_def
      silent_similarities silent_ranked float32_hundredth Let_def)

lemma sample_search_default:
  "search dot_similarity sample_engine q 5 (1 / 100) =
     Inr [chunk.extend (sample_chunks ! 0) (search_result.fields 1 1),
          chunk.extend (sample_chunks ! 1) (search_result.fields (3 / 5) 2)]"
  by (simp add: sample_eval) (simp add: sample_chunks_def)

theorem ask_question_not_found_witness:
  "search dot_similarity silent_engine (u ''gold'') 5 (1 / 100) = Inr [] \<and>
   ask_question_default dot_similarity
     \<lparr>client = answering_client, use_legacy_api = False, search_engine = silent_engine\<rparr>
     (u ''gold'') =
   (\<lparr>question = u ''gold'', answer = not_found_text, sources = [],
     confidence = confidence_low, chunks_used = None, error = None\<rparr>, [])"
  using ask_question_not_found [of dot_similarity
      "\<lparr>client = answering_client, use_legacy_api = False, search_engine = silent_engine\<rparr>"
      "u ''gold''" 5 "1 / 100"]
  by (simp add: silent_search ask_question_default_def)

text \<open>The four confidence labels are different words.\<close>

lemma labels_distinct:
  "confidence_high \<noteq> confidence_medium" "confidence_high \<noteq> confidence_low"
  "confidence_medium \<noteq> confidence_low" "confidence_error \<noteq> confidence_high"
  "confidence_error \<noteq> confidence_medium" "confidence_error \<noteq> confidence_low"
  by (simp_all add: confidence_high_def confidence_medium_def confidence_low_def
      confidence_error_def)

lemma ask_question_answered:
  assumes "search cosine_similarity (search_engine self) q max_chunks min_similarity = Inr rs"
    and "rs \<noteq> []"
    and "error (fst (ask_question cosine_similarity self q max_chunks min_similarity)) = None"
  shows "confidence (fst (ask_question cosine_similarity self q max_chunks min_similarity)) =
           (if sum_list (map similarity rs) / real (length rs) > 3 / 10 then confidence_high
            else if sum_list (map similarity rs) / real (length rs) > 1 / 10
            then confidence_medium else confidence_low)"
  using assms
  by (simp add: ask_question_def failure_def Let_def split: sum.splits if_splits)

text \<open>
  C6 (as amended). For a non-empty list of search results, when \<open>ask_question\<close> reports
  no error (the generator returned a reply), the confidence label is the one for "high"
  exactly when the mean similarity exceeds 0.3, the one for "medium" exactly when it
  exceeds 0.1 but not 0.3, and the one for "low" otherwise.
\<close>

theorem ask_question_confidence:
  assumes "search cosine_similarity (search_engine self) q max_chunks min_similarity = Inr rs"
    and "rs \<noteq> []"
    and "error (fst (ask_question cosine_similarity self q max_chunks min_similarity)) = None"
  shows "(confidence (fst (ask_question cosine_similarity self q max_chunks min_similarity))
            = confidence_high
          \<longleftrightarrow> sum_list (map similarity rs) / real (length rs) > 3 / 10) \<and>
         (confidence (fst (ask_question cosine_similarity self q max_chunks min_similarity))
            = confidence_medium
          \<longleftrightarrow> sum_list (map similarity rs) / real (length rs) > 1 / 10 \<and>
              \<not> sum_list (map similarity rs) / real (length rs) > 3 / 10) \<and>
         (confidence (fst (ask_question cosine_similarity self q max_chunks min_similarity))
            = confidence_low
          \<longleftrightarrow> \<not> sum_list (map similarity rs) / real (length rs) > 1 / 10)"
proof -
  define avg where "avg = sum_list (map similarity rs) / real (length rs)"
  define c where
    "c = confidence (fst (ask_question cosine_similarity self q max_chunks min_similarity))"
  have c: "c = (if avg > 3 / 10 then confidence_high
                else if avg > 1 / 10 then confidence_medium else confidence_low)"
    unfolding c_def avg_def using assms by (rule ask_question_answered)
  have "(c = confidence_high \<longleftrightarrow> avg > 3 / 10) \<and>
        (c = confidence_medium \<longleftrightarrow> avg > 1 / 10 \<and> \<not> avg > 3 / 10) \<and>
        (c = confidence_low \<longleftrightarrow> \<not> avg > 1 / 10)"
  proof (cases "avg > 3 / 10")
    case True
    then have "avg > 1 / 10" by linarith
    with True c labels_distinct show ?thesis by simp
  next
    case False
    with c labels_distinct show ?thesis by auto
  qed
  then show ?thesis
    unfolding c_def avg_def .
qed

lemma ask_question_sample_answered:
  "confidence (fst (ask_question dot_similarity
      \<lparr>client = answering_client, use_legacy_api = False, search_engine = sample_engine\<rparr>
      (u ''sand'') 5 (1 / 100))) = confidence_high \<and>
   error (fst (ask_question dot_similarity
      \<lparr>client = answering_client, use_legacy_api = False, search_engine = sample_engine\<rparr>
      (u ''sand'') 5 (1 / 100))) = None"
  by (simp add: ask_question_def sample_search_default answering_client_def Let_def)

lemma ask_question_sample_failed:
  "confidence (fst (ask_question dot_similarity
      \<lparr>client = failing_client, use_legacy_api = False, search_engine = sample_engine\<rparr>
      (u ''sand'') 5 (1 / 100))) = confidence_error"
  by (simp add: ask_question_def sample_search_default failing_client_def failure_def Let_def)

theorem ask_question_confidence_witness:
  "search dot_similarity sample_engine (u ''sand'') 5 (1 / 100) =
     Inr [chunk.extend (sample_chunks ! 0) (search_result.fields 1 1),
          chunk.extend (sample_chunks ! 1) (search_result.fields (3 / 5) 2)] \<and>
   [chunk.extend (sample_chunks ! 0) (search_result.fields 1 1),
    chunk.extend (sample_chunks ! 1) (search_result.fields (3 / 5) 2)] \<noteq> [] \<and>
   error (fst (ask_question dot_similarity
      \<lparr>client = answering_client, use_legacy_api = False, search_engine = sample_engine\<rparr>
      (u ''sand'') 5 (1 / 100))) = None \<and>
   confidence (fst (ask_question dot_similarity
      \<lparr>client = answering_client, use_legacy_api = False, search_engine = sample_engine\<rparr>
      (u ''sand'') 5 (1 / 100))) = confidence_high \<and>
   (3 / 10 :: real) < (1 + 3 / 5) / 2"
  using ask_question_confidence [of dot_similarity
      "\<lparr>client = answering_client, use_legacy_api = False, search_engine = sample_engine\<rparr>"
      "u ''sand''" 5 "1 / 100"
      "[chunk.extend (sample_chunks ! 0) (search_result.fields 1 1),
        chunk.extend (sample_chunks ! 1) (search_result.fields (3 / 5) 2)]"]
  by (simp add: sample_search_default ask_question_sample_answered)

text \<open>
  C6 (as stated) fails when the generator raises: the two results of the sample engine
  have the mean similarity 0.8, above 0.3, and \<open>ask_question\<close> returns the label for
  "error", which is none of the three labels of the claim.
\<close>

theorem ask_question_confidence_on_failure:
  "search dot_similarity sample_engine (u ''sand'') 5 (1 / 100) =
     Inr [chunk.extend (sample_chunks ! 0) (search_result.fields 1 1),
          chunk.extend (sample_chunks ! 1) (search_result.fields (3 / 5) 2)] \<and>
   3 / 10 < sum_list (map similarity
     [chunk.extend (sample_chunks ! 0) (search_result.fields 1 1),
      chunk.extend (sample_chunks ! 1) (search_result.fields (3 / 5) 2)]) / real (length
     [chunk.extend (sample_chunks ! 0) (search_result.fields 1 1),
      chunk.extend (sample_chunks ! 1) (search_result.fields (3 / 5) 2)]) \<and>
   confidence (fst (ask_question dot_similarity
      \<lparr>client = failing_client, use_legacy_api = False, search_engine = sample_engine\<rparr>
      (u ''sand'') 5 (1 / 100))) = confidence_error \<and>
   confidence_error \<noteq> confidence_high \<and> confidence_error \<noteq> confidence_medium \<and>
   confidence_error \<noteq> confidence_low"
  by (simp add: sample_search_default ask_question_sample_failed labels_distinct)

end
